theory Spec2Isabelle
  imports Complex_Main
begin

section \<open>The intelligent-search function: strings\<close>

text \<open>
  The handler works on JavaScript strings. They are modelled as \<open>string\<close>, a list of
  code units below 256 (the Latin-1 range). Numbers are modelled exactly: a score is a
  \<open>real\<close>, a count or limit an \<open>int\<close> or \<open>nat\<close>.
\<close>

definition isWhiteSpace :: "char \<Rightarrow> bool" where
  \<comment> \<open>The code units below 256 that \<open>String.prototype.trim\<close> strips: TAB, LF, VT, FF,
      CR, SPACE and NBSP.\<close>
  "isWhiteSpace c = ((of_char c :: nat) \<in> {9, 10, 11, 12, 13, 32, 160})"

definition trim :: "string \<Rightarrow> string" where
  "trim s = rev (dropWhile isWhiteSpace (rev (dropWhile isWhiteSpace s)))"

definition toLowerChar :: "char \<Rightarrow> char" where
  \<comment> \<open>\<open>A\<close>..\<open>Z\<close> and the Latin-1 capitals (all of 192..222 but the multiplication sign
      215) move up by 32; every other code unit stays.\<close>
  "toLowerChar c =
     (let n = (of_char c :: nat)
      in if (65 \<le> n \<and> n \<le> 90) \<or> (192 \<le> n \<and> n \<le> 222 \<and> n \<noteq> 215)
         then char_of (n + 32) else c)"

definition toLowerCase :: "string \<Rightarrow> string" where
  "toLowerCase s = map toLowerChar s"

fun startsWith :: "string \<Rightarrow> string \<Rightarrow> bool" where
  "startsWith s [] = True"
| "startsWith [] (c # t) = False"
| "startsWith (a # s) (c # t) = (a = c \<and> startsWith s t)"

fun str_includes :: "string \<Rightarrow> string \<Rightarrow> bool" where
  "str_includes [] t = (t = [])"
| "str_includes (a # s) t = (startsWith (a # s) t \<or> str_includes s t)"

fun split_where :: "(char \<Rightarrow> bool) \<Rightarrow> string \<Rightarrow> string list" where
  \<comment> \<open>Cut a string at every code unit satisfying \<open>P\<close>; empty pieces are kept, so the
      result is never empty.\<close>
  "split_where P [] = [[]]"
| "split_where P (c # cs) =
     (if P c then [] # split_where P cs
      else (case split_where P cs of
              [] \<Rightarrow> [[c]]
            | w # ws \<Rightarrow> (c # w) # ws))"

definition split :: "char \<Rightarrow> string \<Rightarrow> string list" where
  \<comment> \<open>\<open>s.split(sep)\<close> for a separator of one code unit.\<close>
  "split sep s = split_where (\<lambda>c. c = sep) s"

definition whitespace_words :: "string \<Rightarrow> string list" where
  \<comment> \<open>The words of a string in the specification's sense: its maximal runs of
      non-whitespace code units.\<close>
  "whitespace_words s = filter (\<lambda>w. w \<noteq> []) (split_where isWhiteSpace s)"

section \<open>Relevance scoring\<close>

text \<open>
  \<open>calculateRelevance(searchTerm, ...fields)\<close> runs \<open>fields.forEach((field, index) => ...)\<close>
  over a mutable \<open>score\<close>. A field is \<open>None\<close> when it is null or undefined. The guard
  \<open>if (!field) return\<close> also skips the empty string.
\<close>

definition field_step :: "string \<Rightarrow> string option \<Rightarrow> nat \<Rightarrow> real \<Rightarrow> real" where
  "field_step term field index score =
     (case field of
        None \<Rightarrow> score
      | Some f \<Rightarrow>
          if f = [] then score
          else
            let fieldValue = toLowerCase f;
                weight = 1 / (real index + 1)
            in if fieldValue = term then score + 100 * weight
               else if startsWith fieldValue term then score + 80 * weight
               else if str_includes fieldValue term then score + 60 * weight
               else
                 let words = split (CHR '' '') fieldValue;
                     matchingWords = length (filter (\<lambda>word. str_includes word term) words)
                 in if matchingWords > 0
                    then score + (30 * real matchingWords / real (length words)) * weight
                    else score)"

fun forEach_fields :: "string \<Rightarrow> string option list \<Rightarrow> nat \<Rightarrow> real \<Rightarrow> real" where
  "forEach_fields term [] index score = score"
| "forEach_fields term (field # rest) index score =
     forEach_fields term rest (Suc index) (field_step term field index score)"

definition calculateRelevance :: "string \<Rightarrow> string option list \<Rightarrow> real" where
  "calculateRelevance searchTerm fields = forEach_fields (toLowerCase searchTerm) fields 0 0"

text \<open>The scoring rule in the words of the specification.\<close>

definition spec_contribution :: "string \<Rightarrow> string option \<Rightarrow> real" where
  "spec_contribution term field =
     (case field of
        None \<Rightarrow> 0
      | Some f \<Rightarrow>
          let v = toLowerCase f; t = toLowerCase term
          in if v = t then 100
             else if startsWith v t then 80
             else if str_includes v t then 60
             else
               let ws = whitespace_words v;
                   m = length (filter (\<lambda>w. str_includes w t) ws)
               in if m = 0 then 0 else 30 * real m / real (length ws))"

definition spec_relevance :: "string \<Rightarrow> string option list \<Rightarrow> real" where
  "spec_relevance term fields =
     (\<Sum>i < length fields. (1 / (real i + 1)) * spec_contribution term (fields ! i))"

text \<open>
  The scoring rule with one more skipped case: a field that is the empty string
  contributes 0, like a null or absent one. Every other field contributes as above.
\<close>

definition skipping_contribution :: "string \<Rightarrow> string option \<Rightarrow> real" where
  "skipping_contribution term field =
     (case field of
        None \<Rightarrow> 0
      | Some f \<Rightarrow> if f = [] then 0 else spec_contribution term (Some f))"

definition skipping_relevance :: "string \<Rightarrow> string option list \<Rightarrow> real" where
  "skipping_relevance term fields =
     (\<Sum>i < length fields. (1 / (real i + 1)) * skipping_contribution term (fields ! i))"

section \<open>The entity store\<close>

text \<open>
  The rows of the three collections carry the columns the handler selects; a column is
  \<open>None\<close> when the store returns null for it.
\<close>

record person_row =
  person_id :: "string option"
  person_name :: "string option"
  person_title :: "string option"
  person_company :: "string option"
  person_email :: "string option"
  person_phone :: "string option"
  person_linkedin :: "string option"
  person_type :: "string option"

record company_row =
  company_id :: "string option"
  company_name :: "string option"
  company_description :: "string option"
  company_city :: "string option"
  company_state :: "string option"
  company_sectors :: "string option"
  company_website :: "string option"
  company_type :: "string option"

record project_row =
  project_id :: "string option"
  project_title :: "string option"
  project_description :: "string option"
  project_location :: "string option"
  project_type :: "string option"
  project_status :: "string option"
  project_developer :: "string option"
  project_architect :: "string option"

datatype store_error = StoreError string

datatype 'row lookup =
    Resolved "'row list option" "store_error option"
      \<comment> \<open>the promise fulfils with \<open>{ data, error }\<close>\<close>
  | Rejected
      \<comment> \<open>the promise rejects\<close>

record query =
  table :: string
  columns :: string
  or_filter :: string
  row_limit :: int

text \<open>
  The store client is a parameter of the model: \<open>createClient\<close> is taken to have
  returned it. It answers a query on each collection; \<open>now\<close> is the clock read by
  \<open>new Date().toISOString()\<close>.
\<close>

record env =
  from_people :: "query \<Rightarrow> person_row lookup"
  from_companies :: "query \<Rightarrow> company_row lookup"
  from_projects :: "query \<Rightarrow> project_row lookup"
  now :: string

section \<open>Candidate records\<close>

datatype item = PersonItem person_row | CompanyItem company_row | ProjectItem project_row

record result =
  item :: item
  rtype :: string
  name :: "string option"
  description :: string
  relevanceScore :: real

definition or_default :: "string option \<Rightarrow> string \<Rightarrow> string" where
  \<comment> \<open>\<open>v || d\<close> for a text column: null and the empty string give the default.\<close>
  "or_default v d = (case v of None \<Rightarrow> d | Some s \<Rightarrow> if s = [] then d else s)"

definition person_result :: "string \<Rightarrow> person_row \<Rightarrow> result" where
  "person_result searchTerm row =
     \<lparr> item = PersonItem row,
       rtype = ''person'',
       name = person_name row,
       description = or_default (person_title row) ''Professional'' @ '' at '' @
                     or_default (person_company row) ''Unknown Company'',
       relevanceScore =
         calculateRelevance searchTerm [person_name row, person_title row, person_company row] \<rparr>"

definition company_result :: "string \<Rightarrow> company_row \<Rightarrow> result" where
  "company_result searchTerm row =
     \<lparr> item = CompanyItem row,
       rtype = ''company'',
       name = company_name row,
       description =
         or_default (company_description row)
           (or_default (company_sectors row) ''Company'' @ '' based in '' @
            or_default (company_city row) ''Unknown'' @ '', '' @
            or_default (company_state row) ''''),
       relevanceScore =
         calculateRelevance searchTerm
           [company_name row, company_description row, company_sectors row] \<rparr>"

definition project_result :: "string \<Rightarrow> project_row \<Rightarrow> result" where
  "project_result searchTerm row =
     \<lparr> item = ProjectItem row,
       rtype = ''project'',
       name = project_title row,
       description =
         or_default (project_description row)
           (or_default (project_type row) ''Project'' @ '' in '' @
            or_default (project_location row) ''Unknown location''),
       relevanceScore =
         calculateRelevance searchTerm
           [project_title row, project_description row, project_location row] \<rparr>"

definition data_or_empty :: "'row list option \<Rightarrow> 'row list" where
  \<comment> \<open>\<open>data || []\<close>\<close>
  "data_or_empty data = (case data of None \<Rightarrow> [] | Some rows \<Rightarrow> rows)"

definition callback ::
  "('row \<Rightarrow> result) \<Rightarrow> 'row list option \<Rightarrow> store_error option \<Rightarrow> result list" where
  \<comment> \<open>The function passed to \<open>.then\<close>: \<open>({ data, error }) => { if (error) return [];
      return (data || []).map(...) }\<close>.\<close>
  "callback to_result data error =
     (case error of
        Some err \<Rightarrow> []
      | None \<Rightarrow> map to_result (data_or_empty data))"

definition on_response :: "('row \<Rightarrow> result) \<Rightarrow> 'row lookup \<Rightarrow> result list option" where
  \<comment> \<open>\<open>lookup.then(callback)\<close>: a fulfilled lookup goes through the callback, a rejected
      one stays rejected (\<open>None\<close>).\<close>
  "on_response to_result l =
     (case l of
        Rejected \<Rightarrow> None
      | Resolved data error \<Rightarrow> Some (callback to_result data error))"

fun promise_all :: "'a option list \<Rightarrow> 'a list option" where
  "promise_all [] = Some []"
| "promise_all (None # ps) = None"
| "promise_all (Some x # ps) =
     (case promise_all ps of None \<Rightarrow> None | Some xs \<Rightarrow> Some (x # xs))"

section \<open>Sorting and truncation\<close>

definition compareFn :: "result \<Rightarrow> result \<Rightarrow> real" where
  "compareFn a b = relevanceScore b - relevanceScore a"

fun insert_by :: "('a \<Rightarrow> 'a \<Rightarrow> real) \<Rightarrow> 'a \<Rightarrow> 'a list \<Rightarrow> 'a list" where
  "insert_by cmp x [] = [x]"
| "insert_by cmp x (y # ys) =
     (if cmp x y \<le> 0 then x # y # ys else y # insert_by cmp x ys)"

definition sort_by :: "('a \<Rightarrow> 'a \<Rightarrow> real) \<Rightarrow> 'a list \<Rightarrow> 'a list" where
  \<comment> \<open>\<open>Array.prototype.sort\<close> with a comparator: a stable sort.\<close>
  "sort_by cmp xs = foldr (insert_by cmp) xs []"

definition slice0 :: "int \<Rightarrow> 'a list \<Rightarrow> 'a list" where
  \<comment> \<open>\<open>xs.slice(0, end)\<close>: a negative \<open>end\<close> counts from the end of the array.\<close>
  "slice0 end xs =
     (let len = int (length xs);
          final = (if end < 0 then max (len + end) 0 else min end len)
      in take (nat final) xs)"

section \<open>Requests and responses\<close>

record request =
  req_query :: "string option"
  req_includeResults :: "bool option"
  req_maxResults :: "int option"

text \<open>
  What \<open>JSON.parse\<close> can return: \<open>null\<close>; an object, whose three fields have the types
  of the request contract (\<open>None\<close> for a field the object lacks); or any other value (a
  number, a string, a boolean, an array), which has none of the three fields.
\<close>

datatype json_value = JsonNull | JsonOther | JsonObject request

text \<open>
  The text of a request body is taken up to \<open>JSON.parse\<close>: it is the empty string, or a
  non-empty text the parser rejects, or a text the parser accepts with the given value.
  An event without a body (\<open>null\<close> or \<open>undefined\<close>) has \<open>event_body = None\<close>.
\<close>

datatype body_text = EmptyText | Unparseable | Json json_value

record event =
  httpMethod :: string
  event_body :: "body_text option"

definition no_fields :: request where
  "no_fields = \<lparr> req_query = None, req_includeResults = None, req_maxResults = None \<rparr>"

definition JSON_parse :: "body_text option \<Rightarrow> json_value option" where
  \<comment> \<open>\<open>JSON.parse(event.body || '{}')\<close>: a missing or empty body is read as \<open>{}\<close>;
      \<open>None\<close> when the parser throws.\<close>
  "JSON_parse b =
     (case b of
        None \<Rightarrow> Some (JsonObject no_fields)
      | Some EmptyText \<Rightarrow> Some (JsonObject no_fields)
      | Some Unparseable \<Rightarrow> None
      | Some (Json v) \<Rightarrow> Some v)"

definition destructure :: "json_value \<Rightarrow> request option" where
  \<comment> \<open>\<open>const { query, includeResults = true, maxResults = 10 } = body\<close>: destructuring
      \<open>null\<close> throws (\<open>None\<close>); the defaults are applied where the fields are read.\<close>
  "destructure v =
     (case v of
        JsonNull \<Rightarrow> None
      | JsonOther \<Rightarrow> Some no_fields
      | JsonObject r \<Rightarrow> Some r)"

definition request_of :: "event \<Rightarrow> request option" where
  \<comment> \<open>the fields read from the body, \<open>None\<close> when parsing or destructuring throws\<close>
  "request_of ev =
     (case JSON_parse (event_body ev) of
        None \<Rightarrow> None
      | Some v \<Rightarrow> destructure v)"

record resultsByType =
  people :: nat
  companies :: nat
  projects :: nat

record analytics =
  analytics_totalResults :: nat
  resultsByType :: resultsByType
  analytics_searchTerm :: string
  timestamp :: string

record search_body =
  success :: bool
  body_query :: string
  results :: "result list"
  body_analytics :: analytics
  totalResults :: nat

datatype response_body =
    NoBody
  | ErrorBody string
  | InvalidBody string "result list"
      \<comment> \<open>\<open>{ error, results }\<close>\<close>
  | FailureBody bool string "result list"
      \<comment> \<open>\<open>{ success, error, results }\<close>\<close>
  | SearchBody search_body

record response =
  statusCode :: nat
  headers :: "(string \<times> string) list"
  body :: response_body

definition cors_headers :: "(string \<times> string) list" where
  "cors_headers =
     [(''Access-Control-Allow-Origin'', ''*''),
      (''Access-Control-Allow-Headers'', ''Content-Type, Authorization''),
      (''Access-Control-Allow-Methods'', ''GET, POST, PUT, DELETE, OPTIONS''),
      (''Content-Type'', ''application/json'')]"

section \<open>The handler\<close>

definition perCategoryLimit :: "int \<Rightarrow> int" where
  \<comment> \<open>\<open>Math.ceil(maxResults / 3)\<close>\<close>
  "perCategoryLimit maxResults = \<lceil>real_of_int maxResults / 3\<rceil>"

definition people_query :: "string \<Rightarrow> int \<Rightarrow> query" where
  "people_query searchTerm maxResults =
     \<lparr> table = ''people'',
       columns = ''id, name, title, company, email, phone, linkedin, type'',
       or_filter = ''name.ilike.%'' @ searchTerm @ ''%,title.ilike.%'' @ searchTerm @
                   ''%,company.ilike.%'' @ searchTerm @ ''%,email.ilike.%'' @ searchTerm @ ''%'',
       row_limit = perCategoryLimit maxResults \<rparr>"

definition companies_query :: "string \<Rightarrow> int \<Rightarrow> query" where
  "companies_query searchTerm maxResults =
     \<lparr> table = ''companies'',
       columns = ''id, name, description, city, state, sectors, website, type'',
       or_filter = ''name.ilike.%'' @ searchTerm @ ''%,description.ilike.%'' @ searchTerm @
                   ''%,sectors.ilike.%'' @ searchTerm @ ''%,city.ilike.%'' @ searchTerm @ ''%'',
       row_limit = perCategoryLimit maxResults \<rparr>"

definition projects_query :: "string \<Rightarrow> int \<Rightarrow> query" where
  "projects_query searchTerm maxResults =
     \<lparr> table = ''projects'',
       columns = ''id, title, description, location, type, status, developer, architect'',
       or_filter = ''title.ilike.%'' @ searchTerm @ ''%,description.ilike.%'' @ searchTerm @
                   ''%,location.ilike.%'' @ searchTerm @ ''%,developer.ilike.%'' @ searchTerm @
                   ''%,architect.ilike.%'' @ searchTerm @ ''%'',
       row_limit = perCategoryLimit maxResults \<rparr>"

definition internal_error :: response where
  \<comment> \<open>The \<open>catch\<close> block.\<close>
  "internal_error =
     \<lparr> statusCode = 500, headers = cors_headers,
       body = FailureBody False ''Internal server error during search'' [] \<rparr>"

definition respond :: "env \<Rightarrow> string \<Rightarrow> bool \<Rightarrow> int \<Rightarrow> result list list \<Rightarrow> response" where
  \<comment> \<open>The handler after \<open>await Promise.all(searchPromises)\<close>.\<close>
  "respond e searchTerm includeResults maxResults searchResults =
     (let allResults = concat searchResults;
          sortedResults = slice0 maxResults (sort_by compareFn allResults);
          analytics =
            \<lparr> analytics_totalResults = length allResults,
              resultsByType =
                \<lparr> people = length (searchResults ! 0),
                  companies = length (searchResults ! 1),
                  projects = length (searchResults ! 2) \<rparr>,
              analytics_searchTerm = searchTerm,
              timestamp = now e \<rparr>
      in \<lparr> statusCode = 200, headers = cors_headers,
           body = SearchBody
             \<lparr> success = True,
               body_query = searchTerm,
               results = (if includeResults then sortedResults else []),
               body_analytics = analytics,
               totalResults = length allResults \<rparr> \<rparr>)"

definition lookup_call ::
  "(query \<Rightarrow> 'row lookup) \<Rightarrow> ('row \<Rightarrow> result) \<Rightarrow> query \<Rightarrow> result list option \<times> query" where
  \<comment> \<open>One \<open>searchPromises.push(supabase.from(...)...then(...))\<close>: the collection is asked
      the query, its answer goes through the callback, and the query is recorded as
      issued.\<close>
  "lookup_call collection to_result qu = (on_response to_result (collection qu), qu)"

definition search :: "env \<Rightarrow> string \<Rightarrow> bool \<Rightarrow> int \<Rightarrow> response \<times> query list" where
  \<comment> \<open>The handler from \<open>const searchTerm = query.trim()\<close> on. The second component
      lists the lookups issued; all three are issued before any is awaited.\<close>
  "search e q includeResults maxResults =
     (let searchTerm = trim q;
          calls =
            [lookup_call (from_people e) (person_result searchTerm)
               (people_query searchTerm maxResults),
             lookup_call (from_companies e) (company_result searchTerm)
               (companies_query searchTerm maxResults),
             lookup_call (from_projects e) (project_result searchTerm)
               (projects_query searchTerm maxResults)];
          searchPromises = map fst calls;
          issued = map snd calls
      in case promise_all searchPromises of
           None \<Rightarrow> (internal_error, issued)
         | Some searchResults \<Rightarrow>
             (respond e searchTerm includeResults maxResults searchResults, issued))"

definition includeResults_of :: "request \<Rightarrow> bool" where
  \<comment> \<open>the destructuring default \<open>includeResults = true\<close>\<close>
  "includeResults_of b = (case req_includeResults b of None \<Rightarrow> True | Some v \<Rightarrow> v)"

definition maxResults_of :: "request \<Rightarrow> int" where
  \<comment> \<open>the destructuring default \<open>maxResults = 10\<close>\<close>
  "maxResults_of b = (case req_maxResults b of None \<Rightarrow> 10 | Some m \<Rightarrow> m)"

definition handler :: "env \<Rightarrow> event \<Rightarrow> response \<times> query list" where
  "handler e ev =
     (if httpMethod ev = ''OPTIONS''
      then (\<lparr> statusCode = 200, headers = cors_headers, body = NoBody \<rparr>, [])
      else if httpMethod ev \<noteq> ''POST''
      then (\<lparr> statusCode = 405, headers = cors_headers,
               body = ErrorBody ''Method not allowed'' \<rparr>, [])
      else
        case JSON_parse (event_body ev) of
          None \<Rightarrow> (internal_error, [])
        | Some parsed \<Rightarrow>
            (case destructure parsed of
               None \<Rightarrow> (internal_error, [])
             | Some b \<Rightarrow>
                 let includeResults = includeResults_of b;
                     maxResults = maxResults_of b
                 in case req_query b of
                      None \<Rightarrow>
                        (\<lparr> statusCode = 400, headers = cors_headers,
                           body = InvalidBody ''Query parameter is required'' [] \<rparr>, [])
                    | Some q \<Rightarrow>
                        if q = [] \<or> length (trim q) = 0
                        then (\<lparr> statusCode = 400, headers = cors_headers,
                                 body = InvalidBody ''Query parameter is required'' [] \<rparr>, [])
                        else search e q includeResults maxResults))"

text \<open>What a response carries under \<open>results\<close>, if anything.\<close>

definition response_results :: "response \<Rightarrow> result list option" where
  "response_results r =
     (case body r of
        NoBody \<Rightarrow> None
      | ErrorBody msg \<Rightarrow> None
      | InvalidBody msg rs \<Rightarrow> Some rs
      | FailureBody ok msg rs \<Rightarrow> Some rs
      | SearchBody s \<Rightarrow> Some (results s))"

definition search_body_of :: "response \<Rightarrow> search_body option" where
  "search_body_of r = (case body r of SearchBody s \<Rightarrow> Some s | _ \<Rightarrow> None)"

definition post :: "request \<Rightarrow> event" where
  \<comment> \<open>a POST request whose body parses to the given object\<close>
  "post b = \<lparr> httpMethod = ''POST'', event_body = Some (Json (JsonObject b)) \<rparr>"

section \<open>Example stores and requests\<close>

definition acme_person :: person_row where
  "acme_person =
     \<lparr> person_id = Some ''p1'', person_name = Some ''Acme Smith'', person_title = None,
       person_company = Some ''ACME'', person_email = None, person_phone = None,
       person_linkedin = None, person_type = None \<rparr>"

definition jo_person :: person_row where
  "jo_person =
     \<lparr> person_id = Some ''p2'', person_name = Some ''Jo Doe'', person_title = Some ''Broker'',
       person_company = Some ''Acme Corp'', person_email = None, person_phone = None,
       person_linkedin = None, person_type = None \<rparr>"

definition acme_company :: company_row where
  "acme_company =
     \<lparr> company_id = Some ''c1'', company_name = Some ''Acme'', company_description = None,
       company_city = Some ''Miami'', company_state = Some ''FL'', company_sectors = None,
       company_website = None, company_type = None \<rparr>"

definition acme_project :: project_row where
  "acme_project =
     \<lparr> project_id = Some ''j1'', project_title = Some ''Tower'', project_description = None,
       project_location = Some ''Miami'', project_type = None, project_status = None,
       project_developer = Some ''Acme Corp'', project_architect = None \<rparr>"

definition limited :: "query \<Rightarrow> 'row list \<Rightarrow> 'row list" where
  \<comment> \<open>a store that honours a row limit and reads a negative one as no limit\<close>
  "limited q rows = (if row_limit q < 0 then rows else take (nat (row_limit q)) rows)"

definition full_store :: env where
  \<comment> \<open>every lookup succeeds\<close>
  "full_store =
     \<lparr> from_people = (\<lambda>q. Resolved (Some (limited q [jo_person, acme_person])) None),
       from_companies = (\<lambda>q. Resolved (Some (limited q [acme_company])) None),
       from_projects = (\<lambda>q. Resolved (Some (limited q [acme_project])) None),
       now = ''2024-01-01T00:00:00.000Z'' \<rparr>"

definition failing_store :: env where
  \<comment> \<open>the people lookup reports an error in its response\<close>
  "failing_store =
     full_store \<lparr> from_people := (\<lambda>q. Resolved None (Some (StoreError ''timeout''))) \<rparr>"

definition rejecting_store :: env where
  \<comment> \<open>the people lookup's promise rejects\<close>
  "rejecting_store = full_store \<lparr> from_people := (\<lambda>q. Rejected) \<rparr>"

definition acme_request :: request where
  "acme_request =
     \<lparr> req_query = Some '' acme '', req_includeResults = None, req_maxResults = None \<rparr>"

definition two_request :: request where
  "two_request = acme_request \<lparr> req_maxResults := Some 2 \<rparr>"

definition negative_request :: request where
  "negative_request = acme_request \<lparr> req_maxResults := Some (- 3) \<rparr>"

definition blank_request :: request where
  "blank_request =
     \<lparr> req_query = Some ''   '', req_includeResults = None, req_maxResults = None \<rparr>"

section \<open>Facts about the string functions\<close>

lemma startsWith_iff: "startsWith s t \<longleftrightarrow> (\<exists>q. s = t @ q)"
  by (induction s t rule: startsWith.induct) auto

lemma str_includes_iff: "str_includes s t \<longleftrightarrow> (\<exists>p q. s = p @ t @ q)"
proof (induction s)
  case Nil
  then show ?case by simp
next
  case (Cons a s)
  show ?case
  proof
    assume "str_includes (a # s) t"
    then consider "startsWith (a # s) t" | "str_includes s t" by auto
    then show "\<exists>p q. a # s = p @ t @ q"
    proof cases
      case 1
      then obtain q where "a # s = t @ q" by (auto simp: startsWith_iff)
      then have "a # s = [] @ t @ q" by simp
      then show ?thesis by blast
    next
      case 2
      then obtain p q where "s = p @ t @ q" using Cons.IH by auto
      then have "a # s = (a # p) @ t @ q" by simp
      then show ?thesis by blast
    qed
  next
    assume "\<exists>p q. a # s = p @ t @ q"
    then obtain p q where pq: "a # s = p @ t @ q" by blast
    show "str_includes (a # s) t"
    proof (cases p)
      case Nil
      with pq have "startsWith (a # s) t" by (auto simp: startsWith_iff)
      then show ?thesis by simp
    next
      case (Cons b p')
      with pq have "s = p' @ t @ q" by simp
      then have "str_includes s t" using Cons.IH by blast
      then show ?thesis by simp
    qed
  qed
qed

lemma split_where_nonempty: "split_where P s \<noteq> []"
  by (induction s) (auto split: list.splits)

lemma split_where_hd_prefix:
  "split_where P s = v # vs \<Longrightarrow> \<exists>q. s = v @ q"
proof (induction s arbitrary: v vs)
  case Nil
  then show ?case by simp
next
  case (Cons c cs)
  show ?case
  proof (cases "P c")
    case True
    with Cons.prems have "v = []" by simp
    then show ?thesis by simp
  next
    case False
    obtain v' vs' where sp: "split_where P cs = v' # vs'"
      using split_where_nonempty [of P cs] by (cases "split_where P cs") auto
    with False Cons.prems have v: "v = c # v'" by simp
    from Cons.IH [OF sp] obtain q where "cs = v' @ q" by blast
    with v have "c # cs = v @ q" by simp
    then show ?thesis by blast
  qed
qed

lemma split_where_piece:
  "w \<in> set (split_where P s) \<Longrightarrow> \<exists>p q. s = p @ w @ q"
proof (induction s arbitrary: w)
  case Nil
  then show ?case by simp
next
  case (Cons c cs)
  obtain v vs where sp: "split_where P cs = v # vs"
    using split_where_nonempty [of P cs] by (cases "split_where P cs") auto
  have tail: "\<exists>p q. c # cs = p @ u @ q" if "u \<in> set (split_where P cs)" for u
  proof -
    from Cons.IH [OF that] obtain p q where "cs = p @ u @ q" by blast
    then have "c # cs = (c # p) @ u @ q" by simp
    then show ?thesis by blast
  qed
  show ?case
  proof (cases "P c")
    case True
    with Cons.prems have "w = [] \<or> w \<in> set (split_where P cs)" by auto
    then show ?thesis
    proof
      assume "w = []"
      then have "c # cs = [] @ w @ (c # cs)" by simp
      then show ?thesis by blast
    next
      assume "w \<in> set (split_where P cs)"
      then show ?thesis by (rule tail)
    qed
  next
    case False
    with sp Cons.prems have "w = c # v \<or> w \<in> set vs" by auto
    then show ?thesis
    proof
      assume w: "w = c # v"
      from split_where_hd_prefix [OF sp] obtain q where "cs = v @ q" by blast
      with w have "c # cs = [] @ w @ q" by simp
      then show ?thesis by blast
    next
      assume "w \<in> set vs"
      then have "w \<in> set (split_where P cs)" using sp by simp
      then show ?thesis by (rule tail)
    qed
  qed
qed

lemma str_includes_piece:
  assumes "w \<in> set (split_where P s)" and "str_includes w t"
  shows "str_includes s t"
proof -
  from assms(1) obtain p q where s: "s = p @ w @ q"
    using split_where_piece by blast
  from assms(2) obtain p' q' where "w = p' @ t @ q'"
    by (auto simp: str_includes_iff)
  with s have "s = (p @ p') @ t @ (q' @ q)" by simp
  then show ?thesis unfolding str_includes_iff by blast
qed

lemma no_matching_words:
  "\<not> str_includes s t \<Longrightarrow> filter (\<lambda>w. str_includes w t) (split_where P s) = []"
  by (auto simp: filter_empty_conv dest: str_includes_piece)

lemma no_matching_whitespace_words:
  "\<not> str_includes s t \<Longrightarrow> filter (\<lambda>w. str_includes w t) (whitespace_words s) = []"
  by (auto simp: whitespace_words_def filter_empty_conv dest: str_includes_piece)

lemma field_step_nonempty:
  assumes "f \<noteq> []"
  shows "field_step (toLowerCase term) (Some f) index score =
         score + (1 / (real index + 1)) * spec_contribution term (Some f)"
proof (cases "str_includes (toLowerCase f) (toLowerCase term)")
  case True
  with assms show ?thesis
    by (simp add: field_step_def spec_contribution_def Let_def)
next
  case no: False
  have ns: "\<not> startsWith (toLowerCase f) (toLowerCase term)"
  proof
    assume "startsWith (toLowerCase f) (toLowerCase term)"
    then obtain q where "toLowerCase f = [] @ toLowerCase term @ q"
      by (auto simp: startsWith_iff)
    then have "str_includes (toLowerCase f) (toLowerCase term)"
      unfolding str_includes_iff by blast
    with no show False by simp
  qed
  have ne: "toLowerCase f \<noteq> toLowerCase term"
  proof
    assume "toLowerCase f = toLowerCase term"
    then have "toLowerCase f = [] @ toLowerCase term @ []" by simp
    then have "str_includes (toLowerCase f) (toLowerCase term)"
      unfolding str_includes_iff by blast
    with no show False by simp
  qed
  from no ns ne assms show ?thesis
    by (simp add: field_step_def spec_contribution_def Let_def split_def
        no_matching_whitespace_words no_matching_words)
qed

lemma field_step_skipping:
  "field_step (toLowerCase term) field index score =
   score + (1 / (real index + 1)) * skipping_contribution term field"
proof (cases field)
  case None
  then show ?thesis by (simp add: field_step_def skipping_contribution_def)
next
  case (Some f)
  show ?thesis
  proof (cases "f = []")
    case True
    with Some show ?thesis by (simp add: field_step_def skipping_contribution_def)
  next
    case False
    with Some show ?thesis
      by (simp add: field_step_nonempty skipping_contribution_def)
  qed
qed

lemma forEach_fields_sum:
  "forEach_fields (toLowerCase term) flds k s =
   s + (\<Sum>i < length flds. (1 / (real (k + i) + 1)) * skipping_contribution term (flds ! i))"
proof (induction flds arbitrary: k s)
  case Nil
  then show ?case by simp
next
  case (Cons f fs)
  show ?case
    by (simp add: Cons.IH field_step_skipping sum.lessThan_Suc_shift add.assoc
        add.commute add.left_commute del: sum.lessThan_Suc)
qed

text \<open>For a non-empty term the two rules agree: an empty field matches nothing.\<close>

lemma skipping_contribution_spec:
  assumes "term \<noteq> []"
  shows "skipping_contribution term field = spec_contribution term field"
proof (cases "field = Some []")
  case True
  have t: "toLowerCase term \<noteq> []" using assms by (simp add: toLowerCase_def)
  then have "\<not> startsWith [] (toLowerCase term)" by (cases "toLowerCase term") auto
  with True t show ?thesis
    by (simp add: skipping_contribution_def spec_contribution_def toLowerCase_def
        whitespace_words_def)
next
  case False
  show ?thesis
  proof (cases field)
    case None
    then show ?thesis by (simp add: skipping_contribution_def spec_contribution_def)
  next
    case (Some f)
    with False show ?thesis by (simp add: skipping_contribution_def)
  qed
qed

lemma skipping_relevance_spec:
  "term \<noteq> [] \<Longrightarrow> skipping_relevance term flds = spec_relevance term flds"
  by (simp add: skipping_relevance_def spec_relevance_def skipping_contribution_spec)

lemma trim_Nil: "trim [] = []"
  by (simp add: trim_def)

section \<open>Facts about sorting and truncation\<close>

lemma set_insert_by: "set (insert_by cmp x xs) = insert x (set xs)"
  by (induction xs) auto

lemma length_insert_by: "length (insert_by cmp x xs) = Suc (length xs)"
  by (induction xs) auto

lemma length_sort_by: "length (sort_by cmp xs) = length xs"
  by (induction xs) (auto simp: sort_by_def length_insert_by)

lemma insert_by_sorted:
  "sorted_wrt (\<lambda>a b. relevanceScore b \<le> relevanceScore a) xs \<Longrightarrow>
   sorted_wrt (\<lambda>a b. relevanceScore b \<le> relevanceScore a) (insert_by compareFn x xs)"
  by (induction xs) (auto simp: set_insert_by compareFn_def)

lemma sort_by_sorted:
  "sorted_wrt (\<lambda>a b. relevanceScore b \<le> relevanceScore a) (sort_by compareFn xs)"
  by (induction xs) (auto simp: sort_by_def insert_by_sorted)

lemma slice0_sorted:
  "sorted_wrt R xs \<Longrightarrow> sorted_wrt R (slice0 m xs)"
  by (simp add: slice0_def Let_def sorted_wrt_take)

lemma slice0_pos: "0 \<le> m \<Longrightarrow> slice0 m xs = take (nat m) xs"
  by (auto simp: slice0_def Let_def min_def)

lemma slice0_neg: "m < 0 \<Longrightarrow> slice0 m xs = take (length xs - nat (- m)) xs"
proof -
  assume m: "m < 0"
  have "nat (max (int (length xs) + m) 0) = length xs - nat (- m)" using m by auto
  with m show ?thesis by (simp add: slice0_def Let_def)
qed

lemma length_slice0_pos: "0 < m \<Longrightarrow> length (slice0 m xs) \<le> nat m"
  by (simp add: slice0_pos)

lemma length_slice0_le: "length (slice0 m xs) \<le> length xs"
  by (simp add: slice0_def Let_def)

section \<open>The cases of the handler\<close>

lemma promise_all3:
  "promise_all [a, b, c] = (case a of None \<Rightarrow> None | Some x \<Rightarrow>
      (case b of None \<Rightarrow> None | Some y \<Rightarrow> (case c of None \<Rightarrow> None | Some z \<Rightarrow> Some [x, y, z])))"
  by (auto split: option.splits)

lemma request_of_cases:
  "request_of ev =
     (case event_body ev of
        None \<Rightarrow> Some no_fields
      | Some EmptyText \<Rightarrow> Some no_fields
      | Some Unparseable \<Rightarrow> None
      | Some (Json JsonNull) \<Rightarrow> None
      | Some (Json JsonOther) \<Rightarrow> Some no_fields
      | Some (Json (JsonObject r)) \<Rightarrow> Some r)"
  by (simp add: request_of_def JSON_parse_def destructure_def
      split: option.splits body_text.splits json_value.splits)

lemma handler_alt:
  "handler e ev =
     (if httpMethod ev = ''OPTIONS''
      then (\<lparr> statusCode = 200, headers = cors_headers, body = NoBody \<rparr>, [])
      else if httpMethod ev \<noteq> ''POST''
      then (\<lparr> statusCode = 405, headers = cors_headers,
               body = ErrorBody ''Method not allowed'' \<rparr>, [])
      else
        case request_of ev of
          None \<Rightarrow> (internal_error, [])
        | Some b \<Rightarrow>
            (case req_query b of
               None \<Rightarrow>
                 (\<lparr> statusCode = 400, headers = cors_headers,
                    body = InvalidBody ''Query parameter is required'' [] \<rparr>, [])
             | Some q \<Rightarrow>
                 if q = [] \<or> trim q = []
                 then (\<lparr> statusCode = 400, headers = cors_headers,
                          body = InvalidBody ''Query parameter is required'' [] \<rparr>, [])
                 else search e q (includeResults_of b) (maxResults_of b)))"
  by (simp add: handler_def request_of_def Let_def split: option.splits)

lemma handler_valid:
  assumes "httpMethod ev = ''POST''" and "request_of ev = Some b"
    and "req_query b = Some q" and "trim q \<noteq> []"
  shows "handler e ev = search e q (includeResults_of b) (maxResults_of b)"
proof -
  have "q \<noteq> []" using assms(4) trim_Nil by auto
  with assms show ?thesis by (simp add: handler_alt Let_def)
qed

lemma search_resolved:
  assumes "on_response (person_result (trim q)) (from_people e (people_query (trim q) m)) = Some ps"
    and "on_response (company_result (trim q)) (from_companies e (companies_query (trim q) m)) = Some cs"
    and "on_response (project_result (trim q)) (from_projects e (projects_query (trim q) m)) = Some js"
  shows "search e q incl m =
         (respond e (trim q) incl m [ps, cs, js],
          [people_query (trim q) m, companies_query (trim q) m, projects_query (trim q) m])"
  using assms by (simp add: search_def lookup_call_def Let_def)

lemma search_cases:
  "(fst (search e q incl m) = internal_error) \<or>
   (\<exists>ps cs js. fst (search e q incl m) = respond e (trim q) incl m [ps, cs, js])"
  by (auto simp: search_def lookup_call_def Let_def promise_all3 split: option.splits)

lemma search_inv:
  assumes "search_body_of (fst (search e q incl m)) = Some r"
  shows "\<exists>ps cs js.
      on_response (person_result (trim q)) (from_people e (people_query (trim q) m)) = Some ps \<and>
      on_response (company_result (trim q)) (from_companies e (companies_query (trim q) m)) = Some cs \<and>
      on_response (project_result (trim q)) (from_projects e (projects_query (trim q) m)) = Some js \<and>
      fst (search e q incl m) = respond e (trim q) incl m [ps, cs, js]"
  using assms
  by (auto simp: search_def lookup_call_def Let_def promise_all3 search_body_of_def internal_error_def
      split: option.splits)


lemma respond_body:
  "search_body_of (respond e t incl m [ps, cs, js]) =
   Some \<lparr> success = True, body_query = t,
          results = (if incl then slice0 m (sort_by compareFn (ps @ cs @ js)) else []),
          body_analytics =
            \<lparr> analytics_totalResults = length ps + length cs + length js,
              resultsByType =
                \<lparr> people = length ps, companies = length cs, projects = length js \<rparr>,
              analytics_searchTerm = t, timestamp = now e \<rparr>,
          totalResults = length ps + length cs + length js \<rparr>"
  by (simp add: respond_def search_body_of_def Let_def)

lemma handler_cases:
  "fst (handler e ev) = \<lparr> statusCode = 200, headers = cors_headers, body = NoBody \<rparr> \<or>
   fst (handler e ev) =
     \<lparr> statusCode = 405, headers = cors_headers, body = ErrorBody ''Method not allowed'' \<rparr> \<or>
   fst (handler e ev) =
     \<lparr> statusCode = 400, headers = cors_headers,
       body = InvalidBody ''Query parameter is required'' [] \<rparr> \<or>
   fst (handler e ev) = internal_error \<or>
   (\<exists>t incl m ps cs js. fst (handler e ev) = respond e t incl m [ps, cs, js])"
proof -
  have "fst (handler e ev) = \<lparr> statusCode = 200, headers = cors_headers, body = NoBody \<rparr> \<or>
   fst (handler e ev) =
     \<lparr> statusCode = 405, headers = cors_headers, body = ErrorBody ''Method not allowed'' \<rparr> \<or>
   fst (handler e ev) =
     \<lparr> statusCode = 400, headers = cors_headers,
       body = InvalidBody ''Query parameter is required'' [] \<rparr> \<or>
   fst (handler e ev) = internal_error \<or>
   (\<exists>q incl m. fst (handler e ev) = fst (search e q incl m))"
    by (auto simp: handler_alt Let_def split: option.splits)
  moreover have "fst (handler e ev) = internal_error \<or>
      (\<exists>t incl m ps cs js. fst (handler e ev) = respond e t incl m [ps, cs, js])"
    if "fst (handler e ev) = fst (search e q incl m)" for q incl m
  proof -
    from search_cases [of e q incl m] show ?thesis
    proof
      assume "fst (search e q incl m) = internal_error"
      with that show ?thesis by simp
    next
      assume "\<exists>ps cs js. fst (search e q incl m) = respond e (trim q) incl m [ps, cs, js]"
      then obtain ps cs js
        where "fst (search e q incl m) = respond e (trim q) incl m [ps, cs, js]" by blast
      with that have "fst (handler e ev) = respond e (trim q) incl m [ps, cs, js]" by simp
      then show ?thesis by blast
    qed
  qed
  ultimately show ?thesis by blast
qed

lemma handler_search_body:
  assumes "search_body_of (fst (handler e ev)) = Some r"
  shows "\<exists>t incl m ps cs js. fst (handler e ev) = respond e t incl m [ps, cs, js]"
  using handler_cases [of e ev] assms
  by (auto simp: search_body_of_def internal_error_def)

lemma handler_resolved:
  assumes "httpMethod ev = ''POST''"
    and "request_of ev = Some b"
    and "req_query b = Some q" and "trim q \<noteq> []"
    and "on_response (person_result (trim q))
           (from_people e (people_query (trim q) (maxResults_of b))) = Some ps"
    and "on_response (company_result (trim q))
           (from_companies e (companies_query (trim q) (maxResults_of b))) = Some cs"
    and "on_response (project_result (trim q))
           (from_projects e (projects_query (trim q) (maxResults_of b))) = Some js"
  shows "fst (handler e ev) =
         \<lparr> statusCode = 200, headers = cors_headers,
           body = SearchBody
             \<lparr> success = True, body_query = trim q,
               results = (if includeResults_of b
                          then slice0 (maxResults_of b) (sort_by compareFn (ps @ cs @ js))
                          else []),
               body_analytics =
                 \<lparr> analytics_totalResults = length ps + length cs + length js,
                   resultsByType =
                     \<lparr> people = length ps, companies = length cs, projects = length js \<rparr>,
                   analytics_searchTerm = trim q, timestamp = now e \<rparr>,
               totalResults = length ps + length cs + length js \<rparr> \<rparr>"
proof -
  have "handler e ev = search e q (includeResults_of b) (maxResults_of b)"
    using assms(1-4) by (rule handler_valid)
  then show ?thesis
    unfolding search_resolved [OF assms(5-7)]
    by (simp add: respond_def Let_def)
qed

section \<open>The scoring rule\<close>

text \<open>
  C1. As stated (for every query term, a field contributes 100 when its lower-cased value
  equals the lower-cased term and 0 only when it is null or absent) the claim fails at the
  empty term with a field that is the empty string: the guard \<open>if (!field) return\<close> skips
  the field, so the score is 0, where the rule gives 100.
\<close>

theorem calculateRelevance_counterexample:
  "calculateRelevance [] [Some []] = 0 \<and> spec_relevance [] [Some []] = 100 \<and>
   calculateRelevance [] [Some []] \<noteq> spec_relevance [] [Some []]"
  by (simp add: calculateRelevance_def field_step_def spec_relevance_def
      spec_contribution_def toLowerCase_def)

text \<open>
  C1, amended. For every query term and every ordered list of field values, the score
  computed by \<open>calculateRelevance\<close> is the sum over the field positions \<open>i\<close> (from 0)
  of the weight \<open>1 / (i + 1)\<close> times the field's contribution, where the lower-cased
  field value is compared with the lower-cased term: 0 for a field that is null, absent
  or the empty string, 100 when equal, else 80 when the value starts with the term, else
  60 when it contains the term, else \<open>30 * m / wordCount\<close> for the \<open>m\<close>
  whitespace-separated words that contain the term (0 when \<open>m = 0\<close>).
\<close>

theorem calculateRelevance_skipping:
  "calculateRelevance term flds = skipping_relevance term flds"
  by (simp add: calculateRelevance_def skipping_relevance_def forEach_fields_sum)

theorem calculateRelevance_skipping_witness:
  "calculateRelevance ''Acme'' [Some ''ACME Corp'', None, Some ''acme'', Some []] =
     skipping_relevance ''Acme'' [Some ''ACME Corp'', None, Some ''acme'', Some []] \<and>
   calculateRelevance ''Acme'' [Some ''ACME Corp'', None, Some ''acme'', Some []] = 340 / 3 \<and>
   calculateRelevance [] [Some []] = skipping_relevance [] [Some []] \<and>
   skipping_relevance [] [Some []] = 0"
proof -
  have v: "calculateRelevance ''Acme'' [Some ''ACME Corp'', None, Some ''acme'', Some []] = 340 / 3"
    by code_simp
  have z: "calculateRelevance [] [Some []] = 0"
    by (simp add: calculateRelevance_def field_step_def toLowerCase_def)
  show ?thesis
    using calculateRelevance_skipping [of "''Acme''" "[Some ''ACME Corp'', None, Some ''acme'', Some []]"]
      calculateRelevance_skipping [of "[]" "[Some []]"] v z
    by simp
qed

section \<open>A failing lookup\<close>

text \<open>
  C2. As stated (a failing lookup never makes the request fail) the claim does not hold
  for a lookup whose promise rejects: the rejection leaves \<open>Promise.all\<close>, reaches the
  handler's \<open>catch\<close> block and the request is answered with 500, although the two other
  lookups succeeded.
\<close>

theorem partial_failure_counterexample:
  "from_people rejecting_store (people_query ''acme'' 10) = Rejected \<and>
   from_companies rejecting_store (companies_query ''acme'' 10) =
     Resolved (Some [acme_company]) None \<and>
   from_projects rejecting_store (projects_query ''acme'' 10) =
     Resolved (Some [acme_project]) None \<and>
   statusCode (fst (handler rejecting_store (post acme_request))) = 500"
  by code_simp

text \<open>
  C2, amended. For a POST request with a non-blank query whose three lookups all fulfil,
  each with or without an error in its response: the handler answers 200 with
  \<open>success\<close> true; a lookup that reports an error contributes no rows and its count in
  \<open>resultsByType\<close> is 0; a lookup without error contributes its rows; and the results are
  the sorted, truncated merge of the rows so contributed (or empty when includeResults is
  false).
\<close>

theorem partial_failure_absorbed:
  assumes "httpMethod ev = ''POST''"
    and "request_of ev = Some b"
    and "req_query b = Some q" and "trim q \<noteq> []"
    and "from_people e (people_query (trim q) (maxResults_of b)) = Resolved dp ep"
    and "from_companies e (companies_query (trim q) (maxResults_of b)) = Resolved dc ec"
    and "from_projects e (projects_query (trim q) (maxResults_of b)) = Resolved dj ej"
  shows "\<exists>r ps cs js.
           fst (handler e ev) =
             \<lparr> statusCode = 200, headers = cors_headers, body = SearchBody r \<rparr> \<and>
           success r \<and>
           results r = (if includeResults_of b
                        then slice0 (maxResults_of b) (sort_by compareFn (ps @ cs @ js))
                        else []) \<and>
           people (resultsByType (body_analytics r)) = length ps \<and>
           companies (resultsByType (body_analytics r)) = length cs \<and>
           projects (resultsByType (body_analytics r)) = length js \<and>
           ps = (if ep = None then map (person_result (trim q)) (data_or_empty dp) else []) \<and>
           cs = (if ec = None then map (company_result (trim q)) (data_or_empty dc) else []) \<and>
           js = (if ej = None then map (project_result (trim q)) (data_or_empty dj) else [])"
proof -
  let ?ps = "callback (person_result (trim q)) dp ep"
  let ?cs = "callback (company_result (trim q)) dc ec"
  let ?js = "callback (project_result (trim q)) dj ej"
  have p: "on_response (person_result (trim q))
             (from_people e (people_query (trim q) (maxResults_of b))) = Some ?ps"
    using assms(5) by (simp add: on_response_def)
  have c: "on_response (company_result (trim q))
             (from_companies e (companies_query (trim q) (maxResults_of b))) = Some ?cs"
    using assms(6) by (simp add: on_response_def)
  have j: "on_response (project_result (trim q))
             (from_projects e (projects_query (trim q) (maxResults_of b))) = Some ?js"
    using assms(7) by (simp add: on_response_def)
  have cb: "callback f d er = (if er = None then map f (data_or_empty d) else [])"
    for f :: "'r \<Rightarrow> result" and d er
    by (simp add: callback_def split: option.splits)
  note h = handler_resolved [OF assms(1-4) p c j]
  show ?thesis
    apply (rule exI [where x = "the (search_body_of (fst (handler e ev)))"])
    apply (rule exI [where x = ?ps])
    apply (rule exI [where x = ?cs])
    apply (rule exI [where x = ?js])
    apply (simp add: h search_body_of_def cb)
    done
qed

theorem partial_failure_absorbed_witness:
  "httpMethod (post acme_request) = ''POST'' \<and>
   request_of (post acme_request) = Some acme_request \<and>
   req_query acme_request = Some '' acme '' \<and> trim '' acme '' \<noteq> [] \<and>
   from_people failing_store (people_query (trim '' acme '') (maxResults_of acme_request)) =
     Resolved None (Some (StoreError ''timeout'')) \<and>
   from_companies failing_store (companies_query (trim '' acme '') (maxResults_of acme_request)) =
     Resolved (Some [acme_company]) None \<and>
   from_projects failing_store (projects_query (trim '' acme '') (maxResults_of acme_request)) =
     Resolved (Some [acme_project]) None \<and>
   statusCode (fst (handler failing_store (post acme_request))) = 200 \<and>
   response_results (fst (handler failing_store (post acme_request))) =
     Some [company_result ''acme'' acme_company, project_result ''acme'' acme_project] \<and>
   people (resultsByType (body_analytics
     (the (search_body_of (fst (handler failing_store (post acme_request))))))) = 0"
proof -
  have h1: "httpMethod (post acme_request) = ''POST''"
    by (simp add: post_def)
  have h2: "request_of (post acme_request) = Some acme_request"
    by (simp add: post_def request_of_def JSON_parse_def destructure_def)
  have h3: "req_query acme_request = Some '' acme ''"
    by (simp add: acme_request_def)
  have h4: "trim '' acme '' \<noteq> []"
    by code_simp
  have h5: "from_people failing_store
       (people_query (trim '' acme '') (maxResults_of acme_request)) =
     Resolved None (Some (StoreError ''timeout''))"
    by code_simp
  have h6: "from_companies failing_store
       (companies_query (trim '' acme '') (maxResults_of acme_request)) =
     Resolved (Some [acme_company]) None"
    by code_simp
  have h7: "from_projects failing_store
       (projects_query (trim '' acme '') (maxResults_of acme_request)) =
     Resolved (Some [acme_project]) None"
    by code_simp
  have v: "response_results (fst (handler failing_store (post acme_request))) =
     Some [company_result ''acme'' acme_company, project_result ''acme'' acme_project]"
    by code_simp
  from partial_failure_absorbed [OF h1 h2 h3 h4 h5 h6 h7]
  obtain r ps where r:
    "fst (handler failing_store (post acme_request)) =
       \<lparr> statusCode = 200, headers = cors_headers, body = SearchBody r \<rparr>"
    "people (resultsByType (body_analytics r)) = length ps"
    "ps = (if Some (StoreError ''timeout'') = None
           then map (person_result (trim '' acme '')) (data_or_empty None) else [])"
    by blast
  from r have c1: "statusCode (fst (handler failing_store (post acme_request))) = 200"
    by simp
  from r have c2: "people (resultsByType (body_analytics
     (the (search_body_of (fst (handler failing_store (post acme_request))))))) = 0"
    by (simp add: search_body_of_def)
  from h1 h2 h3 h4 h5 h6 h7 v c1 c2 show ?thesis by blast
qed

section \<open>A missing or blank query\<close>

text \<open>
  C3. As stated (every POST request whose body lacks a query field is answered with 400)
  the claim fails for the body \<open>null\<close>: it parses, it has no query field, and
  destructuring it throws inside the \<open>try\<close> block, so the answer is 500.
\<close>

theorem null_body_counterexample:
  "JSON_parse (event_body \<lparr> httpMethod = ''POST'', event_body = Some (Json JsonNull) \<rparr>) =
     Some JsonNull \<and>
   statusCode (fst (handler full_store
     \<lparr> httpMethod = ''POST'', event_body = Some (Json JsonNull) \<rparr>)) = 500 \<and>
   statusCode (fst (handler full_store
     \<lparr> httpMethod = ''POST'', event_body = Some (Json JsonNull) \<rparr>)) \<noteq> 400"
  by (simp add: handler_def JSON_parse_def destructure_def internal_error_def)

text \<open>
  C3, amended. A POST request whose body is absent or empty, or parses to a JSON value
  other than \<open>null\<close>, and which has no query field or a query that trims to the empty
  string, is answered with status 400, an error message and an empty results array; no
  lookup is issued. A body that parses to \<open>null\<close> is answered with status 500 and an empty
  results array, also without any lookup. (\<open>request_of ev = Some b\<close> holds exactly for the
  bodies of the first kind, \<open>b\<close> being the fields read from the body.)
\<close>

theorem blank_query_rejected:
  assumes "httpMethod ev = ''POST''"
  shows "(request_of ev = Some b \<and>
          (req_query b = None \<or> (\<exists>q. req_query b = Some q \<and> trim q = [])) \<longrightarrow>
          handler e ev =
            (\<lparr> statusCode = 400, headers = cors_headers,
               body = InvalidBody ''Query parameter is required'' [] \<rparr>, [])) \<and>
         (event_body ev = Some (Json JsonNull) \<longrightarrow>
          handler e ev =
            (\<lparr> statusCode = 500, headers = cors_headers,
               body = FailureBody False ''Internal server error during search'' [] \<rparr>, []))"
  using assms
  by (auto simp: handler_alt request_of_cases internal_error_def)

theorem blank_query_rejected_witness:
  "httpMethod (post blank_request) = ''POST'' \<and>
   request_of (post blank_request) = Some blank_request \<and>
   req_query blank_request = Some ''   '' \<and> trim ''   '' = [] \<and>
   handler full_store (post blank_request) =
     (\<lparr> statusCode = 400, headers = cors_headers,
        body = InvalidBody ''Query parameter is required'' [] \<rparr>, []) \<and>
   request_of \<lparr> httpMethod = ''POST'', event_body = None \<rparr> = Some no_fields \<and>
   req_query no_fields = None \<and>
   handler full_store \<lparr> httpMethod = ''POST'', event_body = None \<rparr> =
     (\<lparr> statusCode = 400, headers = cors_headers,
        body = InvalidBody ''Query parameter is required'' [] \<rparr>, []) \<and>
   handler full_store \<lparr> httpMethod = ''POST'', event_body = Some (Json JsonNull) \<rparr> =
     (\<lparr> statusCode = 500, headers = cors_headers,
        body = FailureBody False ''Internal server error during search'' [] \<rparr>, [])"
proof -
  have h1: "httpMethod (post blank_request) = ''POST''"
    by (simp add: post_def)
  have h2: "request_of (post blank_request) = Some blank_request"
    by (simp add: post_def request_of_def JSON_parse_def destructure_def)
  have h3: "req_query blank_request = Some ''   ''"
    by (simp add: blank_request_def)
  have h4: "trim ''   '' = []"
    by code_simp
  have g1: "httpMethod \<lparr> httpMethod = ''POST'', event_body = None \<rparr> = ''POST''"
    by simp
  have g2: "request_of \<lparr> httpMethod = ''POST'', event_body = None \<rparr> = Some no_fields"
    by (simp add: request_of_def JSON_parse_def destructure_def)
  have g3: "req_query no_fields = None"
    by (simp add: no_fields_def)
  have n1: "httpMethod \<lparr> httpMethod = ''POST'', event_body = Some (Json JsonNull) \<rparr> = ''POST''"
    by simp
  have n2: "event_body \<lparr> httpMethod = ''POST'', event_body = Some (Json JsonNull) \<rparr> =
            Some (Json JsonNull)"
    by simp
  have c1: "handler full_store (post blank_request) =
     (\<lparr> statusCode = 400, headers = cors_headers,
        body = InvalidBody ''Query parameter is required'' [] \<rparr>, [])"
    using blank_query_rejected [OF h1, of blank_request full_store] h2 h3 h4 by simp
  have c2: "handler full_store \<lparr> httpMethod = ''POST'', event_body = None \<rparr> =
     (\<lparr> statusCode = 400, headers = cors_headers,
        body = InvalidBody ''Query parameter is required'' [] \<rparr>, [])"
    using blank_query_rejected [OF g1, of no_fields full_store] g2 g3 by simp
  have c3: "handler full_store \<lparr> httpMethod = ''POST'', event_body = Some (Json JsonNull) \<rparr> =
     (\<lparr> statusCode = 500, headers = cors_headers,
        body = FailureBody False ''Internal server error during search'' [] \<rparr>, [])"
    using blank_query_rejected [OF n1, of no_fields full_store] n2 by simp
  from h1 h2 h3 h4 g2 g3 c1 c2 c3 show ?thesis by blast
qed

section \<open>The order of the results\<close>

text \<open>
  C4. Whenever the handler answers 200 with a results sequence, that sequence is sorted
  by non-increasing relevance score.
\<close>

theorem results_sorted:
  assumes "statusCode (fst (handler e ev)) = 200"
    and "response_results (fst (handler e ev)) = Some rs"
  shows "sorted_wrt (\<lambda>a b. relevanceScore b \<le> relevanceScore a) rs"
proof -
  from handler_cases [of e ev] assms obtain t incl m ps cs js
    where h: "fst (handler e ev) = respond e t incl m [ps, cs, js]"
    by (auto simp: response_results_def internal_error_def)
  from assms(2) h
  have "rs = (if incl then slice0 m (sort_by compareFn (concat [ps, cs, js])) else [])"
    by (auto simp: response_results_def respond_def Let_def)
  then show ?thesis
    by (simp add: slice0_sorted sort_by_sorted)
qed

theorem results_sorted_witness:
  "statusCode (fst (handler full_store (post acme_request))) = 200 \<and>
   response_results (fst (handler full_store (post acme_request))) =
     Some [person_result ''acme'' acme_person, company_result ''acme'' acme_company,
           person_result ''acme'' jo_person, project_result ''acme'' acme_project] \<and>
   sorted_wrt (\<lambda>a b. relevanceScore b \<le> relevanceScore a)
     [person_result ''acme'' acme_person, company_result ''acme'' acme_company,
      person_result ''acme'' jo_person, project_result ''acme'' acme_project] \<and>
   map relevanceScore
     [person_result ''acme'' acme_person, company_result ''acme'' acme_company,
      person_result ''acme'' jo_person, project_result ''acme'' acme_project] =
     [340 / 3, 100, 80 / 3, 0]"
proof -
  have h1: "statusCode (fst (handler full_store (post acme_request))) = 200"
    by code_simp
  have h2: "response_results (fst (handler full_store (post acme_request))) =
     Some [person_result ''acme'' acme_person, company_result ''acme'' acme_company,
           person_result ''acme'' jo_person, project_result ''acme'' acme_project]"
    by code_simp
  have h3: "map relevanceScore
     [person_result ''acme'' acme_person, company_result ''acme'' acme_company,
      person_result ''acme'' jo_person, project_result ''acme'' acme_project] =
     [340 / 3, 100, 80 / 3, 0]"
    by code_simp
  show ?thesis
    using results_sorted [OF h1 h2] h1 h2 h3 by simp
qed

section \<open>Truncation\<close>

text \<open>
  C5. For a POST request with a non-blank query and a positive maxResults, a 200 response
  has at most maxResults results and a totalResults that is at least the number of
  results; totalResults is the number of merged candidates before truncation.
\<close>

theorem truncation_bounds:
  assumes "httpMethod ev = ''POST''"
    and "request_of ev = Some b"
    and "req_query b = Some q" and "trim q \<noteq> []"
    and "0 < maxResults_of b"
    and "statusCode (fst (handler e ev)) = 200"
    and "search_body_of (fst (handler e ev)) = Some r"
  shows "length (results r) \<le> nat (maxResults_of b) \<and>
         length (results r) \<le> totalResults r \<and>
         (\<exists>ps cs js.
            on_response (person_result (trim q))
              (from_people e (people_query (trim q) (maxResults_of b))) = Some ps \<and>
            on_response (company_result (trim q))
              (from_companies e (companies_query (trim q) (maxResults_of b))) = Some cs \<and>
            on_response (project_result (trim q))
              (from_projects e (projects_query (trim q) (maxResults_of b))) = Some js \<and>
            totalResults r = length (ps @ cs @ js))"
proof -
  let ?m = "maxResults_of b" and ?incl = "includeResults_of b"
  have h: "handler e ev = search e q ?incl ?m"
    using assms(1-4) by (rule handler_valid)
  with assms(7) have "search_body_of (fst (search e q ?incl ?m)) = Some r" by simp
  from search_inv [OF this] obtain ps cs js where
    p: "on_response (person_result (trim q)) (from_people e (people_query (trim q) ?m)) = Some ps"
    and c: "on_response (company_result (trim q))
              (from_companies e (companies_query (trim q) ?m)) = Some cs"
    and j: "on_response (project_result (trim q))
              (from_projects e (projects_query (trim q) ?m)) = Some js"
    and s: "fst (search e q ?incl ?m) = respond e (trim q) ?incl ?m [ps, cs, js]"
    by blast
  from assms(7) h s have r: "search_body_of (respond e (trim q) ?incl ?m [ps, cs, js]) = Some r"
    by simp
  have res: "results r = (if ?incl then slice0 ?m (sort_by compareFn (ps @ cs @ js)) else [])"
    and tot: "totalResults r = length (ps @ cs @ js)"
    using r unfolding respond_body by auto
  have b1: "length (results r) \<le> nat ?m"
    using res length_slice0_pos [OF assms(5), of "sort_by compareFn (ps @ cs @ js)"] by simp
  have "length (slice0 ?m (sort_by compareFn (ps @ cs @ js))) \<le> length (ps @ cs @ js)"
    using length_slice0_le [of ?m "sort_by compareFn (ps @ cs @ js)"]
    by (simp add: length_sort_by)
  then have b2: "length (results r) \<le> totalResults r"
    using res tot by simp
  from b1 b2 p c j tot show ?thesis by blast
qed

theorem truncation_bounds_witness:
  "httpMethod (post two_request) = ''POST'' \<and>
   request_of (post two_request) = Some two_request \<and>
   req_query two_request = Some '' acme '' \<and> trim '' acme '' \<noteq> [] \<and>
   0 < maxResults_of two_request \<and>
   statusCode (fst (handler full_store (post two_request))) = 200 \<and>
   search_body_of (fst (handler full_store (post two_request))) =
     Some (the (search_body_of (fst (handler full_store (post two_request))))) \<and>
   length (results (the (search_body_of (fst (handler full_store (post two_request))))))
     \<le> nat (maxResults_of two_request) \<and>
   length (results (the (search_body_of (fst (handler full_store (post two_request))))))
     \<le> totalResults (the (search_body_of (fst (handler full_store (post two_request))))) \<and>
   length (results (the (search_body_of (fst (handler full_store (post two_request)))))) = 2 \<and>
   totalResults (the (search_body_of (fst (handler full_store (post two_request))))) = 3"
proof -
  have h1: "httpMethod (post two_request) = ''POST''"
    by (simp add: post_def)
  have h2: "request_of (post two_request) = Some two_request"
    by (simp add: post_def request_of_def JSON_parse_def destructure_def)
  have h3: "req_query two_request = Some '' acme ''"
    by (simp add: two_request_def acme_request_def)
  have h4: "trim '' acme '' \<noteq> []"
    by code_simp
  have h5: "0 < maxResults_of two_request"
    by (simp add: two_request_def maxResults_of_def)
  have h6: "statusCode (fst (handler full_store (post two_request))) = 200"
    by code_simp
  have h7: "search_body_of (fst (handler full_store (post two_request))) =
     Some (the (search_body_of (fst (handler full_store (post two_request)))))"
    by code_simp
  have v1: "length (results (the (search_body_of (fst (handler full_store (post two_request)))))) = 2"
    by code_simp
  have v2: "totalResults (the (search_body_of (fst (handler full_store (post two_request))))) = 3"
    by code_simp
  from truncation_bounds [OF h1 h2 h3 h4 h5 h6 h7]
  have c: "length (results (the (search_body_of (fst (handler full_store (post two_request))))))
     \<le> nat (maxResults_of two_request) \<and>
   length (results (the (search_body_of (fst (handler full_store (post two_request))))))
     \<le> totalResults (the (search_body_of (fst (handler full_store (post two_request)))))"
    by blast
  from h1 h2 h3 h4 h5 h6 h7 c v1 v2 show ?thesis by blast
qed

section \<open>The row limit of each lookup\<close>

text \<open>
  C6. For a POST request with a non-blank query, exactly three lookups are issued, on
  people, companies and projects, each with the row limit \<open>ceil(maxResults / 3)\<close>; the
  default maxResults of 10 gives a limit of 4. The answer is computed from what the three
  collections return for exactly these queries.
\<close>

theorem per_category_limit:
  assumes "httpMethod ev = ''POST''"
    and "request_of ev = Some b"
    and "req_query b = Some q" and "trim q \<noteq> []"
  shows "length (snd (handler e ev)) = 3 \<and>
         map table (snd (handler e ev)) = [''people'', ''companies'', ''projects''] \<and>
         map row_limit (snd (handler e ev)) =
           [\<lceil>real_of_int (maxResults_of b) / 3\<rceil>,
            \<lceil>real_of_int (maxResults_of b) / 3\<rceil>,
            \<lceil>real_of_int (maxResults_of b) / 3\<rceil>] \<and>
         (req_maxResults b = None \<longrightarrow> map row_limit (snd (handler e ev)) = [4, 4, 4]) \<and>
         fst (handler e ev) =
           (case promise_all
                   [on_response (person_result (trim q))
                      (from_people e (snd (handler e ev) ! 0)),
                    on_response (company_result (trim q))
                      (from_companies e (snd (handler e ev) ! 1)),
                    on_response (project_result (trim q))
                      (from_projects e (snd (handler e ev) ! 2))] of
              None \<Rightarrow> internal_error
            | Some searchResults \<Rightarrow>
                respond e (trim q) (includeResults_of b) (maxResults_of b) searchResults)"
proof -
  have h: "handler e ev = search e q (includeResults_of b) (maxResults_of b)"
    using assms by (rule handler_valid)
  have issued: "snd (search e q incl m) =
      [people_query (trim q) m, companies_query (trim q) m, projects_query (trim q) m]"
    for incl m
    by (simp add: search_def lookup_call_def Let_def split: option.splits)
  have answer: "fst (search e q incl m) =
      (case promise_all
              [on_response (person_result (trim q)) (from_people e (people_query (trim q) m)),
               on_response (company_result (trim q))
                 (from_companies e (companies_query (trim q) m)),
               on_response (project_result (trim q))
                 (from_projects e (projects_query (trim q) m))] of
         None \<Rightarrow> internal_error
       | Some searchResults \<Rightarrow> respond e (trim q) incl m searchResults)"
    for incl m
    by (simp add: search_def lookup_call_def Let_def split: option.splits)
  have ten: "\<lceil>real_of_int 10 / 3\<rceil> = (4::int)"
    by (simp add: ceiling_eq_iff)
  have limits: "map row_limit (snd (handler e ev)) =
           [\<lceil>real_of_int (maxResults_of b) / 3\<rceil>,
            \<lceil>real_of_int (maxResults_of b) / 3\<rceil>,
            \<lceil>real_of_int (maxResults_of b) / 3\<rceil>]"
    unfolding h issued
    by (simp add: people_query_def companies_query_def projects_query_def perCategoryLimit_def)
  have dflt: "req_maxResults b = None \<longrightarrow> map row_limit (snd (handler e ev)) = [4, 4, 4]"
    unfolding limits using ten by (simp add: maxResults_of_def)
  have tables: "map table (snd (handler e ev)) = [''people'', ''companies'', ''projects'']"
    unfolding h issued
    by (simp add: people_query_def companies_query_def projects_query_def)
  have len: "length (snd (handler e ev)) = 3"
    unfolding h issued by simp
  have ans: "fst (handler e ev) =
           (case promise_all
                   [on_response (person_result (trim q))
                      (from_people e (snd (handler e ev) ! 0)),
                    on_response (company_result (trim q))
                      (from_companies e (snd (handler e ev) ! 1)),
                    on_response (project_result (trim q))
                      (from_projects e (snd (handler e ev) ! 2))] of
              None \<Rightarrow> internal_error
            | Some searchResults \<Rightarrow>
                respond e (trim q) (includeResults_of b) (maxResults_of b) searchResults)"
    unfolding h issued answer by simp
  from len tables limits dflt ans show ?thesis by blast
qed

theorem per_category_limit_witness:
  "httpMethod (post two_request) = ''POST'' \<and>
   request_of (post two_request) = Some two_request \<and>
   req_query two_request = Some '' acme '' \<and> trim '' acme '' \<noteq> [] \<and>
   map table (snd (handler full_store (post two_request))) =
     [''people'', ''companies'', ''projects''] \<and>
   map row_limit (snd (handler full_store (post two_request))) = [1, 1, 1] \<and>
   from_people full_store (snd (handler full_store (post two_request)) ! 0) =
     Resolved (Some [jo_person]) None \<and>
   resultsByType (body_analytics
     (the (search_body_of (fst (handler full_store (post two_request)))))) =
     \<lparr> people = 1, companies = 1, projects = 1 \<rparr> \<and>
   httpMethod (post acme_request) = ''POST'' \<and>
   request_of (post acme_request) = Some acme_request \<and>
   req_query acme_request = Some '' acme '' \<and>
   req_maxResults acme_request = None \<and>
   map row_limit (snd (handler full_store (post acme_request))) = [4, 4, 4]"
proof -
  have h1: "httpMethod (post two_request) = ''POST''"
    by (simp add: post_def)
  have h2: "request_of (post two_request) = Some two_request"
    by (simp add: post_def request_of_def JSON_parse_def destructure_def)
  have h3: "req_query two_request = Some '' acme ''"
    by (simp add: two_request_def acme_request_def)
  have h4: "trim '' acme '' \<noteq> []"
    by code_simp
  have m2: "\<lceil>real_of_int (maxResults_of two_request) / 3\<rceil> = 1"
    by (simp add: two_request_def maxResults_of_def ceiling_eq_iff)
  have g1: "httpMethod (post acme_request) = ''POST''"
    by (simp add: post_def)
  have g2: "request_of (post acme_request) = Some acme_request"
    by (simp add: post_def request_of_def JSON_parse_def destructure_def)
  have g3: "req_query acme_request = Some '' acme ''"
    by (simp add: acme_request_def)
  have g5: "req_maxResults acme_request = None"
    by (simp add: acme_request_def)
  have v1: "from_people full_store (snd (handler full_store (post two_request)) ! 0) =
     Resolved (Some [jo_person]) None"
    by code_simp
  have v2: "resultsByType (body_analytics
     (the (search_body_of (fst (handler full_store (post two_request)))))) =
     \<lparr> people = 1, companies = 1, projects = 1 \<rparr>"
    by code_simp
  from per_category_limit [OF h1 h2 h3 h4, of full_store] m2
  have c1: "map table (snd (handler full_store (post two_request))) =
     [''people'', ''companies'', ''projects''] \<and>
   map row_limit (snd (handler full_store (post two_request))) = [1, 1, 1]"
    by simp
  from per_category_limit [OF g1 g2 g3 h4, of full_store] g5
  have c2: "map row_limit (snd (handler full_store (post acme_request))) = [4, 4, 4]"
    by blast
  from h1 h2 h3 h4 g1 g2 g3 g5 v1 v2 c1 c2 show ?thesis by blast
qed

section \<open>The includeResults flag\<close>



section \<open>A malformed body\<close>

text \<open>
  C8. As stated (a body that is not parseable JSON is rejected with status 400) the claim
  fails: the parse error is caught by the handler's \<open>catch\<close> block, which answers 500.
\<close>

theorem malformed_body_counterexample:
  "statusCode (fst (handler full_store
     \<lparr> httpMethod = ''POST'', event_body = Some Unparseable \<rparr>)) = 500 \<and>
   statusCode (fst (handler full_store
     \<lparr> httpMethod = ''POST'', event_body = Some Unparseable \<rparr>)) \<noteq> 400"
  by (simp add: handler_alt request_of_cases internal_error_def)

text \<open>
  C8, amended. A POST request whose body is a non-empty text that is not parseable as JSON
  is answered with status 500, \<open>success\<close> false, the generic error message and an empty
  results array, before any lookup is issued. An absent or empty body is not a parse
  failure: it is read as \<open>{}\<close> and gets the 400 answer for a missing query, also before
  any lookup.
\<close>

theorem malformed_body_internal_error:
  assumes "httpMethod ev = ''POST''"
  shows "(event_body ev = Some Unparseable \<longrightarrow>
          handler e ev =
            (\<lparr> statusCode = 500, headers = cors_headers,
               body = FailureBody False ''Internal server error during search'' [] \<rparr>, [])) \<and>
         (event_body ev = None \<or> event_body ev = Some EmptyText \<longrightarrow>
          handler e ev =
            (\<lparr> statusCode = 400, headers = cors_headers,
               body = InvalidBody ''Query parameter is required'' [] \<rparr>, []))"
  using assms
  by (auto simp: handler_alt request_of_cases internal_error_def no_fields_def)

theorem malformed_body_internal_error_witness:
  "httpMethod \<lparr> httpMethod = ''POST'', event_body = Some Unparseable \<rparr> = ''POST'' \<and>
   event_body \<lparr> httpMethod = ''POST'', event_body = Some Unparseable \<rparr> = Some Unparseable \<and>
   handler full_store \<lparr> httpMethod = ''POST'', event_body = Some Unparseable \<rparr> =
     (\<lparr> statusCode = 500, headers = cors_headers,
        body = FailureBody False ''Internal server error during search'' [] \<rparr>, []) \<and>
   event_body \<lparr> httpMethod = ''POST'', event_body = Some EmptyText \<rparr> = Some EmptyText \<and>
   handler full_store \<lparr> httpMethod = ''POST'', event_body = Some EmptyText \<rparr> =
     (\<lparr> statusCode = 400, headers = cors_headers,
        body = InvalidBody ''Query parameter is required'' [] \<rparr>, [])"
proof -
  have h1: "httpMethod \<lparr> httpMethod = ''POST'', event_body = Some Unparseable \<rparr> = ''POST''"
    by simp
  have h2: "event_body \<lparr> httpMethod = ''POST'', event_body = Some Unparseable \<rparr> =
            Some Unparseable"
    by simp
  have g1: "httpMethod \<lparr> httpMethod = ''POST'', event_body = Some EmptyText \<rparr> = ''POST''"
    by simp
  have g2: "event_body \<lparr> httpMethod = ''POST'', event_body = Some EmptyText \<rparr> =
            Some EmptyText"
    by simp
  have c1: "handler full_store \<lparr> httpMethod = ''POST'', event_body = Some Unparseable \<rparr> =
     (\<lparr> statusCode = 500, headers = cors_headers,
        body = FailureBody False ''Internal server error during search'' [] \<rparr>, [])"
    using malformed_body_internal_error [OF h1, of full_store] h2 by simp
  have c2: "handler full_store \<lparr> httpMethod = ''POST'', event_body = Some EmptyText \<rparr> =
     (\<lparr> statusCode = 400, headers = cors_headers,
        body = InvalidBody ''Query parameter is required'' [] \<rparr>, [])"
    using malformed_body_internal_error [OF g1, of full_store] g2 by simp
  from h1 h2 g2 c1 c2 show ?thesis by blast
qed

section \<open>The per-category counts\<close>

text \<open>
  C9. In every search response the three per-category counts add up to totalResults.
\<close>

theorem counts_sum_to_total:
  assumes "search_body_of (fst (handler e ev)) = Some r"
  shows "people (resultsByType (body_analytics r)) +
         companies (resultsByType (body_analytics r)) +
         projects (resultsByType (body_analytics r)) = totalResults r \<and>
         analytics_totalResults (body_analytics r) = totalResults r"
proof -
  from handler_search_body [OF assms] obtain t incl m ps cs js
    where "fst (handler e ev) = respond e t incl m [ps, cs, js]" by blast
  with assms have "search_body_of (respond e t incl m [ps, cs, js]) = Some r" by simp
  then show ?thesis unfolding respond_body by auto
qed

theorem counts_sum_to_total_witness:
  "search_body_of (fst (handler failing_store (post acme_request))) =
     Some (the (search_body_of (fst (handler failing_store (post acme_request))))) \<and>
   resultsByType (body_analytics
     (the (search_body_of (fst (handler failing_store (post acme_request)))))) =
     \<lparr> people = 0, companies = 1, projects = 1 \<rparr> \<and>
   totalResults (the (search_body_of (fst (handler failing_store (post acme_request))))) = 2 \<and>
   analytics_totalResults (body_analytics
     (the (search_body_of (fst (handler failing_store (post acme_request)))))) = 2"
proof -
  have h: "search_body_of (fst (handler failing_store (post acme_request))) =
     Some (the (search_body_of (fst (handler failing_store (post acme_request)))))"
    by code_simp
  have v1: "resultsByType (body_analytics
     (the (search_body_of (fst (handler failing_store (post acme_request)))))) =
     \<lparr> people = 0, companies = 1, projects = 1 \<rparr>"
    by code_simp
  from counts_sum_to_total [OF h] v1 h show ?thesis by simp
qed

section \<open>A non-positive maxResults\<close>

text \<open>
  C10. As stated (a non-positive maxResults always gives an empty results array) the claim
  fails for a negative maxResults: \<open>slice(0, maxResults)\<close> then drops that many entries from
  the end of the sorted list instead of all of them. With maxResults = -3 and four
  candidates, one result is returned.
\<close>

theorem nonpositive_maxResults_counterexample:
  "req_maxResults negative_request = Some (- 3) \<and>
   statusCode (fst (handler full_store (post negative_request))) = 200 \<and>
   response_results (fst (handler full_store (post negative_request))) =
     Some [person_result ''acme'' acme_person] \<and>
   response_results (fst (handler full_store (post negative_request))) \<noteq> Some []"
  by code_simp

text \<open>
  C10, amended. A POST request with a non-blank query and a non-positive maxResults is not
  rejected for its maxResults: when none of the three lookup promises rejects, the answer
  is 200 with \<open>success\<close> true. The results are empty when maxResults is 0 or
  includeResults is false; for a negative maxResults = -k they are the sorted candidates
  without the last k (empty when there are at most k). totalResults and resultsByType
  count the rows the lookups contributed.
\<close>

theorem nonpositive_maxResults:
  assumes "httpMethod ev = ''POST''"
    and "request_of ev = Some b"
    and "req_query b = Some q" and "trim q \<noteq> []"
    and "maxResults_of b \<le> 0"
    and "on_response (person_result (trim q))
           (from_people e (people_query (trim q) (maxResults_of b))) = Some ps"
    and "on_response (company_result (trim q))
           (from_companies e (companies_query (trim q) (maxResults_of b))) = Some cs"
    and "on_response (project_result (trim q))
           (from_projects e (projects_query (trim q) (maxResults_of b))) = Some js"
  shows "\<exists>r. fst (handler e ev) =
               \<lparr> statusCode = 200, headers = cors_headers, body = SearchBody r \<rparr> \<and>
             success r \<and>
             results r =
               (if includeResults_of b \<and> maxResults_of b < 0
                then take (length (ps @ cs @ js) - nat (- maxResults_of b))
                       (sort_by compareFn (ps @ cs @ js))
                else []) \<and>
             totalResults r = length (ps @ cs @ js) \<and>
             resultsByType (body_analytics r) =
               \<lparr> people = length ps, companies = length cs, projects = length js \<rparr>"
proof -
  note h = handler_resolved [OF assms(1-4) assms(6-8)]
  have sl: "slice0 (maxResults_of b) xs =
            (if maxResults_of b < 0 then take (length xs - nat (- maxResults_of b)) xs else [])"
    for xs :: "result list"
  proof (cases "maxResults_of b < 0")
    case True
    then show ?thesis by (simp add: slice0_neg)
  next
    case False
    with assms(5) have "maxResults_of b = 0" by simp
    then show ?thesis by (simp add: slice0_def)
  qed
  show ?thesis
    apply (rule exI [where x = "the (search_body_of (fst (handler e ev)))"])
    apply (simp add: h search_body_of_def sl [of "sort_by compareFn (ps @ cs @ js)"]
        length_sort_by)
    done
qed

theorem nonpositive_maxResults_witness:
  "httpMethod (post negative_request) = ''POST'' \<and>
   request_of (post negative_request) = Some negative_request \<and>
   req_query negative_request = Some '' acme '' \<and> trim '' acme '' \<noteq> [] \<and>
   maxResults_of negative_request \<le> 0 \<and>
   on_response (person_result (trim '' acme ''))
     (from_people full_store (people_query (trim '' acme '') (maxResults_of negative_request))) =
     Some [person_result ''acme'' jo_person, person_result ''acme'' acme_person] \<and>
   on_response (company_result (trim '' acme ''))
     (from_companies full_store
        (companies_query (trim '' acme '') (maxResults_of negative_request))) =
     Some [company_result ''acme'' acme_company] \<and>
   on_response (project_result (trim '' acme ''))
     (from_projects full_store
        (projects_query (trim '' acme '') (maxResults_of negative_request))) =
     Some [project_result ''acme'' acme_project] \<and>
   statusCode (fst (handler full_store (post negative_request))) = 200 \<and>
   totalResults (the (search_body_of (fst (handler full_store (post negative_request))))) = 4 \<and>
   resultsByType (body_analytics
     (the (search_body_of (fst (handler full_store (post negative_request)))))) =
     \<lparr> people = 2, companies = 1, projects = 1 \<rparr>"
proof -
  have h1: "httpMethod (post negative_request) = ''POST''"
    by (simp add: post_def)
  have h2: "request_of (post negative_request) = Some negative_request"
    by (simp add: post_def request_of_def JSON_parse_def destructure_def)
  have h3: "req_query negative_request = Some '' acme ''"
    by (simp add: negative_request_def acme_request_def)
  have h4: "trim '' acme '' \<noteq> []"
    by code_simp
  have h5: "maxResults_of negative_request \<le> 0"
    by (simp add: negative_request_def maxResults_of_def)
  have h6: "on_response (person_result (trim '' acme ''))
     (from_people full_store (people_query (trim '' acme '') (maxResults_of negative_request))) =
     Some [person_result ''acme'' jo_person, person_result ''acme'' acme_person]"
    by code_simp
  have h7: "on_response (company_result (trim '' acme ''))
     (from_companies full_store
        (companies_query (trim '' acme '') (maxResults_of negative_request))) =
     Some [company_result ''acme'' acme_company]"
    by code_simp
  have h8: "on_response (project_result (trim '' acme ''))
     (from_projects full_store
        (projects_query (trim '' acme '') (maxResults_of negative_request))) =
     Some [project_result ''acme'' acme_project]"
    by code_simp
  from nonpositive_maxResults [OF h1 h2 h3 h4 h5 h6 h7 h8]
  obtain r where r:
    "fst (handler full_store (post negative_request)) =
       \<lparr> statusCode = 200, headers = cors_headers, body = SearchBody r \<rparr>"
    "totalResults r =
       length ([person_result ''acme'' jo_person, person_result ''acme'' acme_person] @
               [company_result ''acme'' acme_company] @ [project_result ''acme'' acme_project])"
    "resultsByType (body_analytics r) =
       \<lparr> people = length [person_result ''acme'' jo_person, person_result ''acme'' acme_person],
         companies = length [company_result ''acme'' acme_company],
         projects = length [project_result ''acme'' acme_project] \<rparr>"
    by blast
  from r have c1: "statusCode (fst (handler full_store (post negative_request))) = 200"
    by simp
  from r have c2:
    "totalResults (the (search_body_of (fst (handler full_store (post negative_request))))) = 4"
    by (simp add: search_body_of_def)
  from r have c3: "resultsByType (body_analytics
     (the (search_body_of (fst (handler full_store (post negative_request)))))) =
     \<lparr> people = 2, companies = 1, projects = 1 \<rparr>"
    by (simp add: search_body_of_def)
  from h1 h2 h3 h4 h5 h6 h7 h8 c1 c2 c3 show ?thesis by blast
qed

end
